theory Spec2Isabelle
  imports Main "HOL-Library.Multiset"
begin

section \<open>Data model\<close>

text \<open>
  The Prisma schema: the \<open>DocumentStatus\<close> enum and the three tables the chat and
  document services touch. Nullable columns (\<open>String?\<close>) are options, \<open>DateTime\<close>
  columns are natural numbers (milliseconds), \<open>String[]\<close> is a list of strings.
  JavaScript strings are held as their UTF-8 bytes.
\<close>

datatype DocumentStatus = PENDING | PROCESSING | COMPLETED | FAILED

fun status_name :: "DocumentStatus \<Rightarrow> string" where
  "status_name PENDING = ''PENDING''"
| "status_name PROCESSING = ''PROCESSING''"
| "status_name COMPLETED = ''COMPLETED''"
| "status_name FAILED = ''FAILED''"

record document =
  doc_id :: string
  doc_user_id :: string
  doc_filename :: string
  doc_content_type :: string
  doc_logos_id :: "string option"
  doc_status :: DocumentStatus
  doc_summary :: "string option"
  doc_classification :: "string option"
  doc_error_message :: "string option"
  doc_created_at :: nat
  doc_updated_at :: nat

record chat_session =
  ses_id :: string
  ses_document_id :: string
  ses_created_at :: nat
  ses_updated_at :: nat

datatype role = user | assistant

record chat_message =
  msg_id :: string
  msg_session_id :: string
  msg_role :: role
  msg_content :: string
  msg_chunk_ids :: "string list"
  msg_created_at :: nat

text \<open>
  The store. \<open>Document\<close> is keyed by its primary key, \<open>ChatSession\<close> by its unique
  \<open>document_id\<close> (the only column the services look sessions up by), \<open>ChatMessage\<close>
  is the list of rows in insertion order. \<open>generated\<close> counts the rows written so far:
  it numbers the values the store itself produces for a write (\<open>uuid()\<close>,
  \<open>CURRENT_TIMESTAMP\<close>, \<open>@updatedAt\<close>).
\<close>

record db =
  documents :: "string \<rightharpoonup> document"
  chatSessions :: "string \<rightharpoonup> chat_session"
  chatMessages :: "chat_message list"
  generated :: nat

section \<open>Errors and effects\<close>

text \<open>
  The exceptions the services throw, with their messages. \<open>StreamError\<close> is whatever the
  HTTP client or the response stream raises while \<open>chatStream\<close> is being iterated
  (\<open>chatStream\<close> has no \<open>try\<close>/\<open>catch\<close> of its own).
\<close>

datatype error =
    NotFoundException string
  | ForbiddenException string
  | BadRequestException string
  | HttpException string nat
  | StreamError string

fun message_of :: "error \<Rightarrow> string" where
  "message_of (NotFoundException m) = m"
| "message_of (ForbiddenException m) = m"
| "message_of (BadRequestException m) = m"
| "message_of (HttpException m _) = m"
| "message_of (StreamError m) = m"

text \<open>
  What a service call does to the outside, in the order it does it: every request to the
  Logos service, every write to the store, every chunk handed to the caller of the
  generator, and the warning \<open>delete\<close> logs.
\<close>

datatype event =
    SessionCreated string
  | MessageSaved string role string "string list"
  | ChatStreamOpened string string "(role \<times> string) list"
  | Yielded string
  | StatusRequested string
  | DeleteRequested string
  | DocumentUpdated string
  | DocumentDeleted string
  | Warned string

text \<open>The outcome of a call: the store afterwards, the effects, and the value or exception.\<close>

record 'a outcome =
  store :: db
  effects :: "event list"
  result :: "error + 'a"

section \<open>JavaScript helpers\<close>

text \<open>\<open>!s\<close> for a nullable string: \<open>null\<close> and the empty string are falsy.\<close>

fun falsy :: "string option \<Rightarrow> bool" where
  "falsy None = True"
| "falsy (Some s) = (s = [])"

text \<open>\<open>s.split(sep)\<close> for a one-character separator: never empty: the empty string is one empty line.\<close>

fun split :: "char \<Rightarrow> string \<Rightarrow> string list" where
  "split sep [] = [[]]"
| "split sep (c # cs) =
     (if c = sep then [] # split sep cs
      else (case split sep cs of [] \<Rightarrow> [[c]] | l # ls \<Rightarrow> (c # l) # ls))"

definition startsWith :: "string \<Rightarrow> string \<Rightarrow> bool" where
  "startsWith s p \<longleftrightarrow> take (length p) s = p"

definition slice :: "string \<Rightarrow> nat \<Rightarrow> string" where
  "slice s n = drop n s"

section \<open>ChatService.validateDocumentAccess\<close>

definition validateDocumentAccess :: "db \<Rightarrow> string \<Rightarrow> string \<Rightarrow> error + document" where
  "validateDocumentAccess d userId documentId =
     (case documents d documentId of
        None \<Rightarrow> Inl (NotFoundException ''Document not found'')
      | Some doc \<Rightarrow>
          if doc_user_id doc \<noteq> userId then Inl (ForbiddenException ''Access denied'')
          else if doc_status doc \<noteq> COMPLETED then
            Inl (BadRequestException
                  (''Document is not ready. Current status: '' @ status_name (doc_status doc)))
          else if falsy (doc_logos_id doc) then
            Inl (BadRequestException ''Document has no Logos reference'')
          else Inr doc)"

section \<open>The outside world\<close>

text \<open>
  The payload of one \<open>data: \<close> line as \<open>streamChat\<close> reads it: \<open>JSON.parse\<close> of the text,
  then the two properties at the types the source declares for what it stores them in
  (\<open>fullResponse: string\<close>, \<open>chunkIds: string[]\<close>). A property that is absent or \<open>null\<close>
  is \<open>None\<close>. A payload that gives \<open>content\<close> or \<open>chunk_ids\<close> another type is outside
  these types and has no counterpart here.
\<close>

record payload =
  content :: "string option"
  chunk_ids :: "string list option"

text \<open>
  The response to \<open>POST /chat\<close>: the chunks (Node \<open>Buffer\<close>s, as bytes) the response stream
  delivers, and the error that ends the iteration when the request or the stream fails
  (\<open>None\<close> when the remote closes the response normally).
\<close>

record chat_response =
  body_chunks :: "string list"
  body_error :: "string option"

text \<open>
  A failed request, as \<open>handleError\<close> tells the cases apart: an \<open>AxiosError\<close> with the
  status of the response and the \<open>detail\<close> of its body, where there are any, or something else.
\<close>

datatype http_failure = AxiosError "nat option" "string option" | OtherError

text \<open>
  The body of \<open>GET /documents/:id/status\<close>, with \<open>status\<close> as \<open>getDocumentStatus\<close> returns
  it: upper-cased and cast to \<open>DocumentStatus\<close>.
\<close>

record LogosStatusResponse =
  ls_id :: string
  ls_status :: DocumentStatus
  ls_summary :: "string option"
  ls_classification :: "string option"
  ls_error_message :: "string option"

text \<open>
  Everything the services take from outside the repository: the platform's \<open>JSON.parse\<close>
  (\<open>None\<close> when the \<open>try\<close> block throws: a syntax error, or a payload that is \<open>null\<close>), the
  three Logos endpoints used here, and the values the store generates for the \<open>n\<close>-th row
  it writes.
\<close>

record env =
  JSON_parse :: "string \<Rightarrow> payload option"
  post_chat :: "string \<Rightarrow> string \<Rightarrow> (role \<times> string) list \<Rightarrow> chat_response"
  get_status :: "string \<Rightarrow> http_failure + LogosStatusResponse"
  http_delete :: "string \<Rightarrow> http_failure option"
  uuid :: "nat \<Rightarrow> string"
  now :: "nat \<Rightarrow> nat"

section \<open>Buffer.toString\<close>

text \<open>
  \<open>chunk.toString()\<close> on a \<open>Buffer\<close> decodes the bytes as UTF-8; every ill-formed or
  truncated sequence becomes U+FFFD. The text is held as UTF-8 again, so a well-formed chunk
  is its own text and U+FFFD is the three bytes \<open>EF BF BD\<close>.
\<close>

definition byte :: "char \<Rightarrow> nat" where
  "byte c = of_char c"

definition between :: "char \<Rightarrow> nat \<Rightarrow> nat \<Rightarrow> bool" where
  "between c lo hi \<longleftrightarrow> lo \<le> byte c \<and> byte c \<le> hi"

definition replacement :: string where
  "replacement = [CHR 0xEF, CHR 0xBF, CHR 0xBD]"

text \<open>The range of the second byte after the lead byte \<open>b\<close> of a sequence.\<close>

definition second_lo :: "char \<Rightarrow> nat" where
  "second_lo b = (if byte b = 0xE0 then 0xA0 else if byte b = 0xF0 then 0x90 else 0x80)"

definition second_hi :: "char \<Rightarrow> nat" where
  "second_hi b = (if byte b = 0xED then 0x9F else if byte b = 0xF4 then 0x8F else 0xBF)"

text \<open>
  The decoder reads byte by byte. It is idle, or it holds the lead byte of a sequence, the
  continuation bytes seen so far, and the number of bytes still missing.
\<close>

datatype decoder = Idle | Pending char string nat

text \<open>
  A byte read when idle: an ASCII byte is text, a lead byte opens a sequence of two, three or
  four bytes, any other byte is replaced.
\<close>

definition first_byte :: "char \<Rightarrow> string \<times> decoder" where
  "first_byte b =
     (if byte b < 0x80 then ([b], Idle)
      else if between b 0xC2 0xDF then ([], Pending b [] 1)
      else if between b 0xE0 0xEF then ([], Pending b [] 2)
      else if between b 0xF0 0xF4 then ([], Pending b [] 3)
      else (replacement, Idle))"

definition expected :: "char \<Rightarrow> string \<Rightarrow> char \<Rightarrow> bool" where
  "expected b seen c \<longleftrightarrow>
     (if seen = [] then between c (second_lo b) (second_hi b) else between c 0x80 0xBF)"

text \<open>
  One byte: the text it completes, and the state after it. A byte that does not continue
  the open sequence ends it with one replacement character and is read again as a first
  byte.
\<close>

fun step :: "decoder \<Rightarrow> char \<Rightarrow> string \<times> decoder" where
  "step Idle c = first_byte c"
| "step (Pending b seen n) c =
     (if expected b seen c then
        (if n \<le> 1 then (b # seen @ [c], Idle) else ([], Pending b (seen @ [c]) (n - 1)))
      else (replacement @ fst (first_byte c), snd (first_byte c)))"

text \<open>At the end of the chunk an open sequence is replaced.\<close>

fun flush :: "decoder \<Rightarrow> string" where
  "flush Idle = []"
| "flush (Pending b seen n) = replacement"

fun decode :: "decoder \<Rightarrow> string \<Rightarrow> string" where
  "decode st [] = flush st"
| "decode st (c # cs) = fst (step st c) @ decode (snd (step st c)) cs"

definition Buffer_toString :: "string \<Rightarrow> string" where
  "Buffer_toString bs = decode Idle bs"

section \<open>LogosService\<close>

text \<open>
  \<open>handleError\<close> always throws an \<open>HttpException\<close>: the remote's \<open>detail\<close> and status when
  the failure is an \<open>AxiosError\<close> carrying them (\<open>||\<close> falls back on a falsy value), the
  given message and 500 otherwise.
\<close>

fun handleError :: "http_failure \<Rightarrow> string \<Rightarrow> error" where
  "handleError (AxiosError status detail) message =
     HttpException (if falsy detail then message else the detail)
       (case status of None \<Rightarrow> 500 | Some s \<Rightarrow> if s = 0 then 500 else s)"
| "handleError OtherError message = HttpException message 500"

text \<open>
  \<open>getDocumentStatus\<close> returns the body of the response (its status already in the form
  described above), or fails through \<open>handleError\<close>; \<open>deleteDocument\<close> returns nothing, or
  fails the same way.
\<close>

definition getDocumentStatus :: "env \<Rightarrow> string \<Rightarrow> error + LogosStatusResponse" where
  "getDocumentStatus e logosId =
     (case get_status e logosId of
        Inl f \<Rightarrow> Inl (handleError f ''Failed to get document status from Logos'')
      | Inr r \<Rightarrow> Inr r)"

definition deleteDocument :: "env \<Rightarrow> string \<Rightarrow> error option" where
  "deleteDocument e logosId =
     (case http_delete e logosId of
        Some f \<Rightarrow> Some (handleError f ''Failed to delete document from Logos'')
      | None \<Rightarrow> None)"

text \<open>
  \<open>chatStream\<close> posts the request and yields \<open>chunk.toString()\<close> for every chunk of the
  response, in order; a failure of the request or of the stream is not caught.
\<close>

definition chatStream ::
  "env \<Rightarrow> string \<Rightarrow> string \<Rightarrow> (role \<times> string) list \<Rightarrow> string list \<times> string option" where
  "chatStream e logosDocumentId message conversationHistory =
     (let response = post_chat e logosDocumentId message conversationHistory
      in (map Buffer_toString (body_chunks response), body_error response))"

section \<open>ChatService\<close>

text \<open>
  The service in its later form, which keeps a session and its messages for every document
  (an earlier form of the file only forwarded the stream).
\<close>

record ChatRequestDto =
  req_document_id :: string
  req_message :: string
  req_conversation_history :: "(role \<times> string) list option"

record ChatMessageResponseDto =
  dto_id :: string
  dto_role :: role
  dto_content :: string
  dto_chunk_ids :: "string list"
  dto_created_at :: nat

record ChatHistoryResponseDto =
  hist_session_id :: string
  hist_document_id :: string
  hist_messages :: "ChatMessageResponseDto list"

text \<open>
  \<open>getOrCreateSession\<close>: the session of the document, created when there is none. It
  returns the session with the store and the effects.
\<close>

definition getOrCreateSession :: "env \<Rightarrow> db \<Rightarrow> string \<Rightarrow> chat_session \<times> db \<times> event list" where
  "getOrCreateSession e d documentId =
     (case chatSessions d documentId of
        Some session \<Rightarrow> (session, d, [])
      | None \<Rightarrow>
          (let session = \<lparr>ses_id = uuid e (generated d), ses_document_id = documentId,
                           ses_created_at = now e (generated d),
                           ses_updated_at = now e (generated d)\<rparr>
           in (session,
               d\<lparr>chatSessions := (chatSessions d)(documentId \<mapsto> session),
                  generated := Suc (generated d)\<rparr>,
               [SessionCreated documentId])))"

text \<open>
  The rows \<open>include: { messages: { orderBy: { created_at: 'asc' } } }\<close> loads: the messages
  of the session, by creation time. Rows with equal times stay in insertion order.
\<close>

definition session_messages :: "db \<Rightarrow> chat_session \<Rightarrow> chat_message list" where
  "session_messages d session =
     sort_key msg_created_at
       (filter (\<lambda>m. msg_session_id m = ses_id session) (chatMessages d))"

definition message_dto :: "chat_message \<Rightarrow> ChatMessageResponseDto" where
  "message_dto m =
     \<lparr>dto_id = msg_id m, dto_role = msg_role m, dto_content = msg_content m,
      dto_chunk_ids = msg_chunk_ids m, dto_created_at = msg_created_at m\<rparr>"

definition getChatHistory :: "db \<Rightarrow> string \<Rightarrow> string \<Rightarrow> error + ChatHistoryResponseDto" where
  "getChatHistory d userId documentId =
     (case validateDocumentAccess d userId documentId of
        Inl err \<Rightarrow> Inl err
      | Inr _ \<Rightarrow>
          (case chatSessions d documentId of
             None \<Rightarrow>
               Inr \<lparr>hist_session_id = [], hist_document_id = documentId, hist_messages = []\<rparr>
           | Some session \<Rightarrow>
               Inr \<lparr>hist_session_id = ses_id session, hist_document_id = documentId,
                    hist_messages = map message_dto (session_messages d session)\<rparr>))"

definition saveMessage ::
  "env \<Rightarrow> db \<Rightarrow> string \<Rightarrow> role \<Rightarrow> string \<Rightarrow> string list \<Rightarrow> chat_message \<times> db \<times> event list" where
  "saveMessage e d documentId r text chunkIds =
     (case getOrCreateSession e d documentId of
        (session, d1, created) \<Rightarrow>
          (let m = \<lparr>msg_id = uuid e (generated d1), msg_session_id = ses_id session,
                     msg_role = r, msg_content = text, msg_chunk_ids = chunkIds,
                     msg_created_at = now e (generated d1)\<rparr>
           in (m,
               d1\<lparr>chatMessages := chatMessages d1 @ [m], generated := Suc (generated d1)\<rparr>,
               created @ [MessageSaved documentId r text chunkIds])))"

text \<open>
  The body of the inner \<open>for\<close> loop of \<open>streamChat\<close>, on the pair
  \<open>(fullResponse, chunkIds)\<close>: only a line that starts with \<open>data: \<close> is parsed, a parse
  error is swallowed, a truthy \<open>content\<close> (a non-empty string) is appended and a truthy
  \<open>chunk_ids\<close> (any array) replaces the list.
\<close>

definition parseLine ::
  "(string \<Rightarrow> payload option) \<Rightarrow> string \<times> string list \<Rightarrow> string \<Rightarrow> string \<times> string list" where
  "parseLine parse acc line =
     (case acc of
        (fullResponse, chunkIds) \<Rightarrow>
          if startsWith line ''data: '' then
            (case parse (slice line 6) of
               None \<Rightarrow> (fullResponse, chunkIds)
             | Some data \<Rightarrow>
                 ((case content data of
                     None \<Rightarrow> fullResponse
                   | Some c \<Rightarrow> if c = [] then fullResponse else fullResponse @ c),
                  (case chunk_ids data of
                     None \<Rightarrow> chunkIds
                   | Some ids \<Rightarrow> ids)))
          else (fullResponse, chunkIds))"

text \<open>
  The \<open>for await\<close> loop over the chunks of the stream: each chunk is split at newlines,
  its lines are parsed, and then the chunk itself is yielded.
\<close>

fun forAwait ::
  "(string \<Rightarrow> payload option) \<Rightarrow> string list \<Rightarrow> string \<times> string list \<Rightarrow> event list \<Rightarrow>
   (string \<times> string list) \<times> event list" where
  "forAwait parse [] acc out = (acc, out)"
| "forAwait parse (chunk # rest) acc out =
     forAwait parse rest (foldl (parseLine parse) acc (split (CHR 0x0A) chunk))
       (out @ [Yielded chunk])"

text \<open>
  \<open>streamChat\<close>, run by a caller that iterates the generator to its end. The request is
  sent when the caller asks for the first chunk, after the user message has been saved and
  the history read back.
\<close>

definition streamChat :: "env \<Rightarrow> db \<Rightarrow> string \<Rightarrow> ChatRequestDto \<Rightarrow> unit outcome" where
  "streamChat e d userId chatRequest =
     (case validateDocumentAccess d userId (req_document_id chatRequest) of
        Inl err \<Rightarrow> \<lparr>store = d, effects = [], result = Inl err\<rparr>
      | Inr doc \<Rightarrow>
          (case saveMessage e d (req_document_id chatRequest) user (req_message chatRequest) [] of
             (_, d1, saved) \<Rightarrow>
               (case getChatHistory d1 userId (req_document_id chatRequest) of
                  Inl err \<Rightarrow> \<lparr>store = d1, effects = saved, result = Inl err\<rparr>
                | Inr history \<Rightarrow>
                    (let conversationHistory =
                           map (\<lambda>m. (dto_role m, dto_content m)) (butlast (hist_messages history));
                         opened = ChatStreamOpened (the (doc_logos_id doc))
                                    (req_message chatRequest) conversationHistory
                     in (case chatStream e (the (doc_logos_id doc)) (req_message chatRequest)
                                 conversationHistory of
                           (chunks, failure) \<Rightarrow>
                             (case forAwait (JSON_parse e) chunks ([], []) (saved @ [opened]) of
                                ((fullResponse, chunkIds), out) \<Rightarrow>
                                  (case failure of
                                     Some msg \<Rightarrow>
                                       \<lparr>store = d1, effects = out, result = Inl (StreamError msg)\<rparr>
                                   | None \<Rightarrow>
                                       if fullResponse \<noteq> [] then
                                         (case saveMessage e d1 (req_document_id chatRequest)
                                                 assistant fullResponse chunkIds of
                                            (_, d2, saved') \<Rightarrow>
                                              \<lparr>store = d2, effects = out @ saved',
                                               result = Inr ()\<rparr>)
                                       else \<lparr>store = d1, effects = out, result = Inr ()\<rparr>)))))))"

section \<open>DocumentsService\<close>

definition findOne :: "db \<Rightarrow> string \<Rightarrow> string \<Rightarrow> error + document" where
  "findOne d userId documentId =
     (case documents d documentId of
        None \<Rightarrow> Inl (NotFoundException ''Document not found'')
      | Some doc \<Rightarrow>
          if doc_user_id doc \<noteq> userId then Inl (ForbiddenException ''Access denied'')
          else Inr doc)"

text \<open>What \<open>getStatus\<close> returns.\<close>

record status_view =
  sv_id :: string
  sv_status :: DocumentStatus
  sv_summary :: "string option"
  sv_classification :: "string option"
  sv_error_message :: "string option"

text \<open>
  \<open>prisma.document.update\<close> of the row \<open>findOne\<close> has just read, with the four fields of
  a status response; \<open>@updatedAt\<close> sets \<open>updated_at\<close> on every update.
\<close>

definition update_document ::
  "env \<Rightarrow> db \<Rightarrow> string \<Rightarrow> document \<Rightarrow> LogosStatusResponse \<Rightarrow> db" where
  "update_document e d documentId doc logosStatus =
     d\<lparr>documents := (documents d)(documentId \<mapsto>
          doc\<lparr>doc_status := ls_status logosStatus, doc_summary := ls_summary logosStatus,
              doc_classification := ls_classification logosStatus,
              doc_error_message := ls_error_message logosStatus,
              doc_updated_at := now e (generated d)\<rparr>),
        generated := Suc (generated d)\<rparr>"

text \<open>
  \<open>getStatus\<close>: the stored fields when there is no reference; otherwise the fresh status,
  written to the row only when the status differs from the stored one.
\<close>

definition getStatus :: "env \<Rightarrow> db \<Rightarrow> string \<Rightarrow> string \<Rightarrow> status_view outcome" where
  "getStatus e d userId documentId =
     (case findOne d userId documentId of
        Inl err \<Rightarrow> \<lparr>store = d, effects = [], result = Inl err\<rparr>
      | Inr doc \<Rightarrow>
          if falsy (doc_logos_id doc) then
            \<lparr>store = d, effects = [],
             result = Inr \<lparr>sv_id = doc_id doc, sv_status = doc_status doc,
                           sv_summary = doc_summary doc,
                           sv_classification = doc_classification doc,
                           sv_error_message = doc_error_message doc\<rparr>\<rparr>
          else
            (case getDocumentStatus e (the (doc_logos_id doc)) of
               Inl err \<Rightarrow>
                 \<lparr>store = d, effects = [StatusRequested (the (doc_logos_id doc))],
                  result = Inl err\<rparr>
             | Inr logosStatus \<Rightarrow>
                 (let fresh = \<lparr>sv_id = doc_id doc, sv_status = ls_status logosStatus,
                                sv_summary = ls_summary logosStatus,
                                sv_classification = ls_classification logosStatus,
                                sv_error_message = ls_error_message logosStatus\<rparr>
                  in if ls_status logosStatus \<noteq> doc_status doc then
                       \<lparr>store = update_document e d documentId doc logosStatus,
                        effects = [StatusRequested (the (doc_logos_id doc)),
                                   DocumentUpdated documentId],
                        result = Inr fresh\<rparr>
                     else
                       \<lparr>store = d, effects = [StatusRequested (the (doc_logos_id doc))],
                        result = Inr fresh\<rparr>)))"

text \<open>
  \<open>prisma.document.delete\<close>: the row goes, and with it (\<open>ON DELETE CASCADE\<close>) the
  session of the document and the messages of that session.
\<close>

definition delete_document :: "db \<Rightarrow> string \<Rightarrow> db" where
  "delete_document d documentId =
     d\<lparr>documents := (documents d)(documentId := None),
        chatSessions := (chatSessions d)(documentId := None),
        chatMessages :=
          (case chatSessions d documentId of
             None \<Rightarrow> chatMessages d
           | Some session \<Rightarrow>
               filter (\<lambda>m. msg_session_id m \<noteq> ses_id session) (chatMessages d))\<rparr>"

text \<open>
  \<open>delete\<close>: the remote delete is tried when there is a reference, its failure is caught
  and logged, and the local delete follows in every case.
\<close>

record delete_ack =
  ack_message :: string

definition delete :: "env \<Rightarrow> db \<Rightarrow> string \<Rightarrow> string \<Rightarrow> delete_ack outcome" where
  "delete e d userId documentId =
     (case findOne d userId documentId of
        Inl err \<Rightarrow> \<lparr>store = d, effects = [], result = Inl err\<rparr>
      | Inr doc \<Rightarrow>
          (let remote =
                 (if falsy (doc_logos_id doc) then []
                  else (case deleteDocument e (the (doc_logos_id doc)) of
                          None \<Rightarrow> [DeleteRequested (the (doc_logos_id doc))]
                        | Some err \<Rightarrow>
                            [DeleteRequested (the (doc_logos_id doc)),
                             Warned (''Failed to delete document from Logos: '' @
                                     message_of err)]))
           in \<lparr>store = delete_document d documentId,
               effects = remote @ [DocumentDeleted documentId],
               result = Inr \<lparr>ack_message = ''Document deleted successfully''\<rparr>\<rparr>))"

section \<open>Notions used in the statements\<close>

text \<open>The lines the parser sees: every chunk is split at newlines on its own.\<close>

definition lines_of :: "string list \<Rightarrow> string list" where
  "lines_of chunks = concat (map (split (CHR 0x0A)) chunks)"

text \<open>A chunk made of whole lines, each ended by a newline.\<close>

definition unlines :: "string list \<Rightarrow> string" where
  "unlines ls = concat (map (\<lambda>l. l @ [CHR 0x0A]) ls)"

text \<open>
  The content fragment a line carries (empty when it carries none), and the chunk ids it
  carries: only a line with the prefix \<open>data: \<close> and a payload that parses carries anything.
\<close>

definition content_of :: "(string \<Rightarrow> payload option) \<Rightarrow> string \<Rightarrow> string" where
  "content_of parse line =
     (if startsWith line ''data: '' then
        (case parse (slice line 6) of
           None \<Rightarrow> []
         | Some data \<Rightarrow> (case content data of None \<Rightarrow> [] | Some c \<Rightarrow> c))
      else [])"

definition ids_of :: "(string \<Rightarrow> payload option) \<Rightarrow> string \<Rightarrow> string list option" where
  "ids_of parse line =
     (if startsWith line ''data: '' then
        (case parse (slice line 6) of
           None \<Rightarrow> None
         | Some data \<Rightarrow> chunk_ids data)
      else None)"

text \<open>The last set of chunk ids seen, or \<open>ids0\<close> when none was.\<close>

definition last_ids :: "string list \<Rightarrow> string list option list \<Rightarrow> string list" where
  "last_ids ids0 seen = last (ids0 # map the (filter (\<lambda>x. x \<noteq> None) seen))"

text \<open>
  The conversation history \<open>streamChat\<close> sends: the history read back after the user
  message has been saved, without its last entry.
\<close>

definition contextFor :: "env \<Rightarrow> db \<Rightarrow> string \<Rightarrow> ChatRequestDto \<Rightarrow> (role \<times> string) list" where
  "contextFor e d userId q =
     (case saveMessage e d (req_document_id q) user (req_message q) [] of
        (_, d1, _) \<Rightarrow>
          (case getChatHistory d1 userId (req_document_id q) of
             Inl _ \<Rightarrow> []
           | Inr history \<Rightarrow>
               map (\<lambda>m. (dto_role m, dto_content m)) (butlast (hist_messages history))))"

text \<open>The stream \<open>streamChat\<close> iterates: the text chunks, and the error ending them if any.\<close>

definition remoteStream ::
  "env \<Rightarrow> db \<Rightarrow> string \<Rightarrow> ChatRequestDto \<Rightarrow> document \<Rightarrow> string list \<times> string option" where
  "remoteStream e d userId q doc =
     chatStream e (the (doc_logos_id doc)) (req_message q) (contextFor e d userId q)"

text \<open>The pair \<open>(fullResponse, chunkIds)\<close> the loop of \<open>streamChat\<close> ends with.\<close>

definition accumulate :: "(string \<Rightarrow> payload option) \<Rightarrow> string list \<Rightarrow> string \<times> string list" where
  "accumulate parse chunks = fst (forAwait parse chunks ([], []) [])"

text \<open>The messages a call has added to the store, as role, content and chunk ids.\<close>

definition added :: "db \<Rightarrow> db \<Rightarrow> (role \<times> string \<times> string list) list" where
  "added d d' =
     map (\<lambda>m. (msg_role m, msg_content m, msg_chunk_ids m))
       (drop (length (chatMessages d)) (chatMessages d'))"

text \<open>The chunks a run has handed to the caller, in order.\<close>

fun yielded :: "event list \<Rightarrow> string list" where
  "yielded [] = []"
| "yielded (Yielded c # evs) = c # yielded evs"
| "yielded (_ # evs) = yielded evs"

text \<open>The fresh values \<open>getStatus\<close> returns from a status response.\<close>

definition fresh_view :: "document \<Rightarrow> LogosStatusResponse \<Rightarrow> status_view" where
  "fresh_view doc r =
     \<lparr>sv_id = doc_id doc, sv_status = ls_status r, sv_summary = ls_summary r,
      sv_classification = ls_classification r, sv_error_message = ls_error_message r\<rparr>"

text \<open>
  Well-formed UTF-8: the byte sequences that are the encoding of some text (the table of
  the Unicode standard, with the same ranges for the second byte as the decoder).
\<close>

fun wellformed :: "string \<Rightarrow> bool" where
  "wellformed [] = True"
| "wellformed (b # bs) =
     (if byte b < 0x80 then wellformed bs
      else if between b 0xC2 0xDF then
        (case bs of
           c # r \<Rightarrow> between c 0x80 0xBF \<and> wellformed r
         | _ \<Rightarrow> False)
      else if between b 0xE0 0xEF then
        (case bs of
           c # d # r \<Rightarrow>
             between c (second_lo b) (second_hi b) \<and> between d 0x80 0xBF \<and> wellformed r
         | _ \<Rightarrow> False)
      else if between b 0xF0 0xF4 then
        (case bs of
           c # d # f # r \<Rightarrow>
             between c (second_lo b) (second_hi b) \<and> between d 0x80 0xBF \<and>
             between f 0x80 0xBF \<and> wellformed r
         | _ \<Rightarrow> False)
      else False)"

text \<open>The bytes a decoder holds back.\<close>

fun held :: "decoder \<Rightarrow> string" where
  "held Idle = []"
| "held (Pending b seen n) = b # seen"

section \<open>Example data\<close>

text \<open>
  Three documents of one owner: one ready for chat, one still pending, one without a
  Logos reference.
\<close>

definition doc1 :: document where
  "doc1 = \<lparr>doc_id = ''D1'', doc_user_id = ''alice'', doc_filename = ''a.pdf'',
            doc_content_type = ''application/pdf'', doc_logos_id = Some ''L1'',
            doc_status = COMPLETED, doc_summary = None, doc_classification = None,
            doc_error_message = None, doc_created_at = 1, doc_updated_at = 1\<rparr>"

definition doc2 :: document where
  "doc2 = \<lparr>doc_id = ''D2'', doc_user_id = ''alice'', doc_filename = ''b.txt'',
            doc_content_type = ''text/plain'', doc_logos_id = Some ''L2'',
            doc_status = PENDING, doc_summary = None, doc_classification = None,
            doc_error_message = None, doc_created_at = 2, doc_updated_at = 2\<rparr>"

definition doc3 :: document where
  "doc3 = \<lparr>doc_id = ''D3'', doc_user_id = ''alice'', doc_filename = ''c.txt'',
            doc_content_type = ''text/plain'', doc_logos_id = None,
            doc_status = COMPLETED, doc_summary = Some ''old'', doc_classification = None,
            doc_error_message = None, doc_created_at = 3, doc_updated_at = 3\<rparr>"

definition db1 :: db where
  "db1 = \<lparr>documents = [''D1'' \<mapsto> doc1, ''D2'' \<mapsto> doc2, ''D3'' \<mapsto> doc3],
          chatSessions = Map.empty, chatMessages = [], generated = 0\<rparr>"

text \<open>
  \<open>JSON.parse\<close> on the payloads of the examples; every other text used in them is not JSON.
\<close>

definition parse1 :: "string \<Rightarrow> payload option" where
  \<open>parse1 s =
     (if s = ''{"content":"Hel"}'' then Some \<lparr>content = Some ''Hel'', chunk_ids = None\<rparr>
      else if s = ''{"content":"lo"}'' then Some \<lparr>content = Some ''lo'', chunk_ids = None\<rparr>
      else if s = ''{"chunk_ids":["a","b"]}'' then
        Some \<lparr>content = None, chunk_ids = Some [''a'', ''b'']\<rparr>
      else None)\<close>

text \<open>The lines of the remote stream, one event (a line and a blank line) per chunk.\<close>

definition lines1 :: "string list list" where
  \<open>lines1 = [[''data: {"content":"Hel"}'', []], [''data: {not json'', []],
             [''data: {"content":"lo"}'', []], [''data: {"chunk_ids":["a","b"]}'', []]]\<close>

definition status2 :: LogosStatusResponse where
  "status2 = \<lparr>ls_id = ''L2'', ls_status = PROCESSING, ls_summary = Some ''draft'',
               ls_classification = Some ''memo'', ls_error_message = None\<rparr>"

definition env1 :: env where
  "env1 = \<lparr>JSON_parse = parse1,
           post_chat = (\<lambda>_ _ _. \<lparr>body_chunks = map unlines lines1, body_error = None\<rparr>),
           get_status = (\<lambda>l. if l = ''L2'' then Inr status2 else Inl OtherError),
           http_delete = (\<lambda>_. Some (AxiosError (Some 503) (Some ''down''))),
           uuid = (\<lambda>n. replicate (Suc n) (CHR ''u'')),
           now = (\<lambda>n. 100 + n)\<rparr>"

definition req1 :: ChatRequestDto where
  "req1 = \<lparr>req_document_id = ''D1'', req_message = ''hi'', req_conversation_history = None\<rparr>"

text \<open>Requests for the pending document, the one without a reference, and an absent one.\<close>

definition req2 :: ChatRequestDto where
  "req2 = \<lparr>req_document_id = ''D2'', req_message = ''hi'', req_conversation_history = None\<rparr>"

definition req3 :: ChatRequestDto where
  "req3 = \<lparr>req_document_id = ''D3'', req_message = ''hi'', req_conversation_history = None\<rparr>"

definition req9 :: ChatRequestDto where
  "req9 = \<lparr>req_document_id = ''D9'', req_message = ''hi'', req_conversation_history = None\<rparr>"

text \<open>
  A remote whose answer \<open>data: {"content":"cafe"}\<close>, with an acute accent on the \<open>e\<close>,
  arrives in two chunks, cut between the two bytes \<open>C3 A9\<close> of the accented letter.
\<close>

definition env2 :: env where
  \<open>env2 = env1\<lparr>post_chat := (\<lambda>_ _ _.
            \<lparr>body_chunks = [''data: {"content":"caf'' @ [CHR 0xC3],
                            CHR 0xA9 # ''"}'' @ [CHR 0x0A, CHR 0x0A]],
             body_error = None\<rparr>)\<rparr>\<close>

text \<open>
  A store in which the first document has a session with two messages, inserted out of
  order, beside a message of some other session.
\<close>

definition session5 :: chat_session where
  "session5 = \<lparr>ses_id = ''S1'', ses_document_id = ''D1'', ses_created_at = 5,
               ses_updated_at = 5\<rparr>"

definition msg_a :: chat_message where
  "msg_a = \<lparr>msg_id = ''M1'', msg_session_id = ''S1'', msg_role = assistant,
            msg_content = ''second'', msg_chunk_ids = [''c1''], msg_created_at = 20\<rparr>"

definition msg_b :: chat_message where
  "msg_b = \<lparr>msg_id = ''M2'', msg_session_id = ''S1'', msg_role = user,
            msg_content = ''first'', msg_chunk_ids = [], msg_created_at = 10\<rparr>"

definition msg_c :: chat_message where
  "msg_c = \<lparr>msg_id = ''M3'', msg_session_id = ''S7'', msg_role = user,
            msg_content = ''elsewhere'', msg_chunk_ids = [], msg_created_at = 15\<rparr>"

definition db5 :: db where
  "db5 = db1\<lparr>chatSessions := [''D1'' \<mapsto> session5], chatMessages := [msg_a, msg_c, msg_b],
             generated := 4\<rparr>"




text \<open>The store after the pending document has taken the status the remote reports.\<close>

definition doc2' :: document where
  "doc2' = doc2\<lparr>doc_status := PROCESSING, doc_summary := Some ''draft'',
                 doc_classification := Some ''memo'', doc_error_message := None,
                 doc_updated_at := 100\<rparr>"

definition db2 :: db where
  "db2 = db1\<lparr>documents := (documents db1)(''D2'' \<mapsto> doc2'), generated := 1\<rparr>"

text \<open>
  A remote that ends its lines with CR LF and whose first chunk stops just before the CR:
  \<open>JSON.parse\<close> accepts the payload with or without the trailing CR.
\<close>

definition parse3 :: "string \<Rightarrow> payload option" where
  \<open>parse3 s =
     (if s = ''{"content":"x"}'' \<or> s = ''{"content":"x"}'' @ [CHR 0x0D]
      then Some \<lparr>content = Some ''x'', chunk_ids = None\<rparr> else None)\<close>

definition env3 :: env where
  \<open>env3 = env1\<lparr>JSON_parse := parse3,
             post_chat := (\<lambda>_ _ _.
               \<lparr>body_chunks = [''data: {"content":"x"}'', [CHR 0x0D, CHR 0x0A, CHR 0x0D, CHR 0x0A]],
                body_error = None\<rparr>)\<rparr>\<close>

text \<open>Two chunks whose boundary cuts the line \<open>data: {"content":"lo"}\<close> inside its payload.\<close>

definition cut1 :: string where
  \<open>cut1 = ''data: {"content":"Hel"}'' @ [CHR 0x0A, CHR 0x0A] @ ''data: {"con''\<close>

definition cut2 :: string where
  \<open>cut2 = ''tent":"lo"}'' @ [CHR 0x0A, CHR 0x0A]\<close>

section \<open>Lemmas\<close>

subsection \<open>Lines and the parser loop\<close>

lemma split_not_Nil: "split sep s \<noteq> []"
  by (induction s) (auto split: list.splits)

lemma split_no_sep: "sep \<notin> set s \<Longrightarrow> split sep s = [s]"
  by (induction s) auto

lemma split_append: "split sep (u @ sep # v) = split sep u @ split sep v"
  using split_not_Nil[of sep]
  by (induction u) (auto split: list.splits)

lemma split_line: "sep \<notin> set l \<Longrightarrow> split sep (l @ sep # v) = l # split sep v"
  by (simp add: split_append split_no_sep)

lemma split_unlines:
  "\<forall>l\<in>set ls. CHR 0x0A \<notin> set l \<Longrightarrow> split (CHR 0x0A) (unlines ls) = ls @ [[]]"
  by (induction ls) (simp_all add: unlines_def split_line)

lemma lines_of_append: "lines_of (xs @ ys) = lines_of xs @ lines_of ys"
  by (simp add: lines_of_def)

lemma lines_of_unlines:
  "\<forall>g\<in>set groups. \<forall>l\<in>set g. CHR 0x0A \<notin> set l \<Longrightarrow>
   lines_of (map unlines groups) = concat (map (\<lambda>g. g @ [[]]) groups)"
  by (induction groups) (simp_all add: lines_of_def split_unlines)

lemma forAwait_eq:
  "forAwait parse chunks acc out =
     (foldl (parseLine parse) acc (lines_of chunks), out @ map Yielded chunks)"
  by (induction chunks arbitrary: acc out) (simp_all add: lines_of_def)

lemma parseLine_eq:
  "parseLine parse (f, ids) line =
     (f @ content_of parse line, (case ids_of parse line of None \<Rightarrow> ids | Some i \<Rightarrow> i))"
  by (simp add: parseLine_def content_of_def ids_of_def split: option.splits)

lemma parseLine_skip:
  "(startsWith a ''data: '' \<longrightarrow> parse (slice a 6) = None) \<Longrightarrow> parseLine parse acc a = acc"
  by (cases acc) (auto simp: parseLine_def)

lemma foldl_parseLine:
  "foldl (parseLine parse) (f, ids) ls =
     (f @ concat (map (content_of parse) ls), last_ids ids (map (ids_of parse) ls))"
proof (induction ls arbitrary: f ids)
  case Nil
  then show ?case by (simp add: last_ids_def)
next
  case (Cons l ls)
  show ?case
    by (cases "ids_of parse l")
       (simp_all add: parseLine_eq Cons.IH last_ids_def)
qed

lemma content_of_Nil: "content_of parse [] = []"
  by (simp add: content_of_def startsWith_def)

lemma ids_of_Nil: "ids_of parse [] = None"
  by (simp add: ids_of_def startsWith_def)

lemma content_blank:
  "concat (map (content_of parse) (concat (map (\<lambda>g. g @ [[]]) groups))) =
   concat (map (content_of parse) (concat groups))"
  by (induction groups) (simp_all add: content_of_Nil)

lemma ids_blank:
  "filter (\<lambda>x. x \<noteq> None) (map (ids_of parse) (concat (map (\<lambda>g. g @ [[]]) groups))) =
   filter (\<lambda>x. x \<noteq> None) (map (ids_of parse) (concat groups))"
  by (induction groups) (simp_all add: ids_of_Nil)

lemma last_ids_blank:
  "last_ids i (map (ids_of parse) (concat (map (\<lambda>g. g @ [[]]) groups))) =
   last_ids i (map (ids_of parse) (concat groups))"
  by (simp only: last_ids_def ids_blank)

lemma accumulate_lines: "accumulate parse chunks =
   (concat (map (content_of parse) (lines_of chunks)),
    last_ids [] (map (ids_of parse) (lines_of chunks)))"
  by (simp add: accumulate_def forAwait_eq foldl_parseLine)

lemma accumulate_whole_lines:
  assumes "\<forall>g\<in>set groups. \<forall>l\<in>set g. CHR 0x0A \<notin> set l"
  shows "accumulate parse (map unlines groups) =
   (concat (map (content_of parse) (concat groups)),
    last_ids [] (map (ids_of parse) (concat groups)))"
  by (simp add: accumulate_lines lines_of_unlines[OF assms] content_blank last_ids_blank)

subsection \<open>Sessions and messages\<close>

lemma getOrCreateSession_documents:
  "getOrCreateSession e d i = (s, d1, ev) \<Longrightarrow> documents d1 = documents d"
  by (auto simp: getOrCreateSession_def Let_def split: option.splits)

lemma getOrCreateSession_session:
  "getOrCreateSession e d i = (s, d1, ev) \<Longrightarrow> chatSessions d1 i = Some s"
  by (auto simp: getOrCreateSession_def Let_def split: option.splits)

lemma getOrCreateSession_messages:
  "getOrCreateSession e d i = (s, d1, ev) \<Longrightarrow> chatMessages d1 = chatMessages d"
  by (auto simp: getOrCreateSession_def Let_def split: option.splits)

lemma getOrCreateSession_existing:
  "chatSessions d i = Some s \<Longrightarrow> getOrCreateSession e d i = (s, d, [])"
  by (simp add: getOrCreateSession_def)

lemma saveMessage_documents:
  "saveMessage e d i r t c = (m, d1, ev) \<Longrightarrow> documents d1 = documents d"
  by (auto simp: saveMessage_def Let_def split: prod.splits dest: getOrCreateSession_documents)

lemma saveMessage_session:
  "saveMessage e d i r t c = (m, d1, ev) \<Longrightarrow> \<exists>s. chatSessions d1 i = Some s \<and> msg_session_id m = ses_id s"
  by (auto simp: saveMessage_def Let_def split: prod.splits dest: getOrCreateSession_session)

lemma saveMessage_messages:
  "saveMessage e d i r t c = (m, d1, ev) \<Longrightarrow>
   chatMessages d1 = chatMessages d @ [m] \<and> msg_role m = r \<and> msg_content m = t \<and> msg_chunk_ids m = c"
  by (auto simp: saveMessage_def Let_def split: prod.splits dest: getOrCreateSession_messages)

lemma saveMessage_effects:
  "saveMessage e d i r t c = (m, d1, ev) \<Longrightarrow>
   ev = (if chatSessions d i = None then [SessionCreated i] else []) @ [MessageSaved i r t c]"
  by (auto simp: saveMessage_def getOrCreateSession_def Let_def split: prod.splits option.splits)

lemma validate_documents:
  "documents d1 = documents d \<Longrightarrow> validateDocumentAccess d1 u i = validateDocumentAccess d u i"
  by (simp add: validateDocumentAccess_def)

lemma getChatHistory_valid:
  "validateDocumentAccess d u i = Inr doc \<Longrightarrow> chatSessions d i = Some s \<Longrightarrow>
   getChatHistory d u i =
     Inr \<lparr>hist_session_id = ses_id s, hist_document_id = i,
          hist_messages = map message_dto (session_messages d s)\<rparr>"
  by (simp add: getChatHistory_def)

lemma session_messages_sorted: "sorted (map msg_created_at (session_messages d s))"
  by (simp add: session_messages_def)

lemma session_messages_mset:
  "mset (session_messages d s) = mset (filter (\<lambda>m. msg_session_id m = ses_id s) (chatMessages d))"
  by (simp add: session_messages_def)




lemma added_one:
  "chatMessages d' = chatMessages d @ [m] \<Longrightarrow>
   added d d' = [(msg_role m, msg_content m, msg_chunk_ids m)]"
  by (simp add: added_def)

lemma added_two:
  "chatMessages d' = chatMessages d @ [m] \<Longrightarrow> chatMessages d'' = chatMessages d' @ [a] \<Longrightarrow>
   added d d'' = [(msg_role m, msg_content m, msg_chunk_ids m),
                  (msg_role a, msg_content a, msg_chunk_ids a)]"
  by (simp add: added_def)

subsection \<open>A run of streamChat that passes validation\<close>

lemma streamChat_valid:
  assumes valid: "validateDocumentAccess d u (req_document_id q) = Inr doc"
      and save: "saveMessage e d (req_document_id q) user (req_message q) [] = (m, d1, saved)"
      and stream: "remoteStream e d u q doc = (chunks, failure)"
      and acc: "accumulate (JSON_parse e) chunks = (fullResponse, chunkIds)"
  shows "streamChat e d u q =
     (let out = saved @ [ChatStreamOpened (the (doc_logos_id doc)) (req_message q)
                            (contextFor e d u q)] @ map Yielded chunks
      in case failure of
           Some msg \<Rightarrow> \<lparr>store = d1, effects = out, result = Inl (StreamError msg)\<rparr>
         | None \<Rightarrow>
             if fullResponse \<noteq> [] then
               \<lparr>store = fst (snd (saveMessage e d1 (req_document_id q) assistant fullResponse chunkIds)),
                effects = out @ [MessageSaved (req_document_id q) assistant fullResponse chunkIds],
                result = Inr ()\<rparr>
             else \<lparr>store = d1, effects = out, result = Inr ()\<rparr>)"
proof -
  from save obtain s where s: "chatSessions d1 (req_document_id q) = Some s"
    using saveMessage_session by blast
  have valid1: "validateDocumentAccess d1 u (req_document_id q) = Inr doc"
    using valid validate_documents[OF saveMessage_documents[OF save]] by simp
  have hist: "getChatHistory d1 u (req_document_id q) =
     Inr \<lparr>hist_session_id = ses_id s, hist_document_id = req_document_id q,
          hist_messages = map message_dto (session_messages d1 s)\<rparr>"
    using valid1 s by (rule getChatHistory_valid)
  have ctx: "contextFor e d u q =
     map (\<lambda>m. (dto_role m, dto_content m)) (butlast (map message_dto (session_messages d1 s)))"
    by (simp add: contextFor_def save hist)
  have fa: "forAwait (JSON_parse e) chunks ([], []) out0 =
              ((fullResponse, chunkIds), out0 @ map Yielded chunks)" for out0
    using acc by (simp add: accumulate_def forAwait_eq)
  obtain m2 d2 ev2 where save2:
    "saveMessage e d1 (req_document_id q) assistant fullResponse chunkIds = (m2, d2, ev2)"
    by (cases "saveMessage e d1 (req_document_id q) assistant fullResponse chunkIds")
  have ev2: "ev2 = [MessageSaved (req_document_id q) assistant fullResponse chunkIds]"
    using saveMessage_effects[OF save2] s by simp
  show ?thesis
    using stream
    by (simp add: streamChat_def Let_def valid save hist remoteStream_def ctx[symmetric] fa save2 ev2
             split: option.splits)
qed

lemma streamChat_added:
  assumes valid: "validateDocumentAccess d u (req_document_id q) = Inr doc"
      and stream: "remoteStream e d u q doc = (chunks, failure)"
      and acc: "accumulate (JSON_parse e) chunks = (fullResponse, chunkIds)"
  shows "added d (store (streamChat e d u q)) =
           (user, req_message q, []) #
           (if failure = None \<and> fullResponse \<noteq> [] then [(assistant, fullResponse, chunkIds)]
            else [])"
proof -
  obtain m d1 saved where
    save: "saveMessage e d (req_document_id q) user (req_message q) [] = (m, d1, saved)"
    by (cases "saveMessage e d (req_document_id q) user (req_message q) []")
  obtain a d2 saved' where
    save2: "saveMessage e d1 (req_document_id q) assistant fullResponse chunkIds = (a, d2, saved')"
    by (cases "saveMessage e d1 (req_document_id q) assistant fullResponse chunkIds")
  note m = saveMessage_messages[OF save]
  note a = saveMessage_messages[OF save2]
  have one: "added d d1 = [(user, req_message q, [])]"
    using added_one[of d1 d m] m by simp
  have two: "added d d2 = [(user, req_message q, []), (assistant, fullResponse, chunkIds)]"
    using added_two[of d1 d m d2 a] m a by simp
  show ?thesis
    by (simp add: streamChat_valid[OF valid save stream acc] Let_def save2 one two
             split: option.splits)
qed

lemma streamChat_effects:
  assumes valid: "validateDocumentAccess d u (req_document_id q) = Inr doc"
      and stream: "remoteStream e d u q doc = (chunks, failure)"
      and acc: "accumulate (JSON_parse e) chunks = (fullResponse, chunkIds)"
  shows "effects (streamChat e d u q) =
           (if chatSessions d (req_document_id q) = None
            then [SessionCreated (req_document_id q)] else []) @
           [MessageSaved (req_document_id q) user (req_message q) [],
            ChatStreamOpened (the (doc_logos_id doc)) (req_message q) (contextFor e d u q)] @
           map Yielded chunks @
           (if failure = None \<and> fullResponse \<noteq> []
            then [MessageSaved (req_document_id q) assistant fullResponse chunkIds] else [])"
proof -
  obtain m d1 saved where
    save: "saveMessage e d (req_document_id q) user (req_message q) [] = (m, d1, saved)"
    by (cases "saveMessage e d (req_document_id q) user (req_message q) []")
  show ?thesis
    by (simp add: streamChat_valid[OF valid save stream acc] Let_def saveMessage_effects[OF save]
             split: option.splits)
qed

lemma streamChat_result:
  assumes valid: "validateDocumentAccess d u (req_document_id q) = Inr doc"
      and stream: "remoteStream e d u q doc = (chunks, failure)"
  shows "result (streamChat e d u q) =
           (case failure of None \<Rightarrow> Inr () | Some msg \<Rightarrow> Inl (StreamError msg))"
proof -
  obtain m d1 saved where
    save: "saveMessage e d (req_document_id q) user (req_message q) [] = (m, d1, saved)"
    by (cases "saveMessage e d (req_document_id q) user (req_message q) []")
  obtain f i where acc: "accumulate (JSON_parse e) chunks = (f, i)"
    by (cases "accumulate (JSON_parse e) chunks")
  show ?thesis
    by (simp add: streamChat_valid[OF valid save stream acc] Let_def split: option.splits)
qed


lemma yielded_append: "yielded (xs @ ys) = yielded xs @ yielded ys"
  by (induction xs rule: yielded.induct) simp_all

lemma yielded_map: "yielded (map Yielded cs) = cs"
  by (induction cs) simp_all

lemma streamChat_yields:
  assumes valid: "validateDocumentAccess d u (req_document_id q) = Inr doc"
  shows "yielded (effects (streamChat e d u q)) =
         map Buffer_toString
           (body_chunks (post_chat e (the (doc_logos_id doc)) (req_message q)
                           (contextFor e d u q)))"
proof -
  obtain chunks failure where stream: "remoteStream e d u q doc = (chunks, failure)"
    by (cases "remoteStream e d u q doc")
  obtain f i where acc: "accumulate (JSON_parse e) chunks = (f, i)"
    by (cases "accumulate (JSON_parse e) chunks")
  have "yielded (effects (streamChat e d u q)) = chunks"
    by (simp add: streamChat_effects[OF valid stream acc] yielded_append yielded_map)
  moreover have "chunks = map Buffer_toString
           (body_chunks (post_chat e (the (doc_logos_id doc)) (req_message q)
                           (contextFor e d u q)))"
    using stream by (simp add: remoteStream_def chatStream_def Let_def)
  ultimately show ?thesis by simp
qed

lemma streamChat_whole_lines:
  assumes valid: "validateDocumentAccess d userId (req_document_id q) = Inr doc"
      and whole: "remoteStream e d userId q doc = (map unlines groups, None)"
      and lines: "\<forall>g\<in>set groups. \<forall>l\<in>set g. CHR 0x0A \<notin> set l"
  shows "result (streamChat e d userId q) = Inr () \<and>
         added d (store (streamChat e d userId q)) =
           (user, req_message q, []) #
           (if concat (map (content_of (JSON_parse e)) (concat groups)) = [] then []
            else [(assistant,
                   concat (map (content_of (JSON_parse e)) (concat groups)),
                   last_ids [] (map (ids_of (JSON_parse e)) (concat groups)))])"
proof -
  obtain m d1 saved where
    save: "saveMessage e d (req_document_id q) user (req_message q) [] = (m, d1, saved)"
    by (cases "saveMessage e d (req_document_id q) user (req_message q) []")
  note acc = accumulate_whole_lines[OF lines, of "JSON_parse e"]
  have "result (streamChat e d userId q) = Inr ()"
    by (simp add: streamChat_valid[OF valid save whole acc] Let_def)
  then show ?thesis
    by (simp add: streamChat_added[OF valid whole acc])
qed

subsection \<open>Text of a chunk\<close>

lemma newline_byte: "byte (CHR 0x0A) = 10"
  by (simp add: byte_def)

lemma newline_not_between: "0x80 \<le> lo \<Longrightarrow> \<not> between (CHR 0x0A) lo hi"
  by (simp add: between_def newline_byte)

lemma second_lo_ge: "0x80 \<le> second_lo b"
  by (simp add: second_lo_def)

lemma newline_unexpected: "\<not> expected b seen (CHR 0x0A)"
  by (simp add: expected_def newline_not_between second_lo_ge)

lemma step_newline: "step st (CHR 0x0A) = (flush st @ [CHR 0x0A], Idle)"
  by (cases st) (simp_all add: first_byte_def newline_byte newline_unexpected)

lemma decode_line: "decode st (l @ CHR 0x0A # rest) = decode st l @ CHR 0x0A # decode Idle rest"
  by (induction l arbitrary: st) (simp_all add: step_newline)

lemma Buffer_toString_line:
  "Buffer_toString (l @ CHR 0x0A # rest) = Buffer_toString l @ CHR 0x0A # Buffer_toString rest"
  by (simp add: Buffer_toString_def decode_line)

lemma Buffer_toString_ascii: "\<forall>c\<in>set s. byte c < 0x80 \<Longrightarrow> Buffer_toString s = s"
  unfolding Buffer_toString_def by (induction s) (simp_all add: first_byte_def)

lemma decode_two:
  "\<not> byte b < 0x80 \<Longrightarrow> between b 0xC2 0xDF \<Longrightarrow> between c 0x80 0xBF \<Longrightarrow>
   decode Idle (b # c # r) = b # c # decode Idle r"
  by (simp add: first_byte_def expected_def second_lo_def second_hi_def between_def)

lemma decode_three:
  "\<not> byte b < 0x80 \<Longrightarrow> \<not> between b 0xC2 0xDF \<Longrightarrow> between b 0xE0 0xEF \<Longrightarrow>
   between c (second_lo b) (second_hi b) \<Longrightarrow> between d 0x80 0xBF \<Longrightarrow>
   decode Idle (b # c # d # r) = b # c # d # decode Idle r"
  by (simp add: first_byte_def expected_def)

lemma decode_four:
  "\<not> byte b < 0x80 \<Longrightarrow> \<not> between b 0xC2 0xDF \<Longrightarrow> \<not> between b 0xE0 0xEF \<Longrightarrow>
   between b 0xF0 0xF4 \<Longrightarrow> between c (second_lo b) (second_hi b) \<Longrightarrow>
   between d 0x80 0xBF \<Longrightarrow> between f 0x80 0xBF \<Longrightarrow>
   decode Idle (b # c # d # f # r) = b # c # d # f # decode Idle r"
  by (simp add: first_byte_def expected_def)

lemma decode_wellformed: "wellformed bs \<Longrightarrow> decode Idle bs = bs"
proof (induction bs rule: length_induct)
  case (1 bs)
  have IH: "decode Idle r = r" if "length r < length bs" "wellformed r" for r
    using "1.IH" that by blast
  show ?case
  proof (cases bs)
    case Nil
    then show ?thesis by simp
  next
    case (Cons b t)
    note bs = Cons
    consider (one) "byte b < 0x80"
      | (two) "\<not> byte b < 0x80" "between b 0xC2 0xDF"
      | (three) "\<not> byte b < 0x80" "\<not> between b 0xC2 0xDF" "between b 0xE0 0xEF"
      | (four) "\<not> byte b < 0x80" "\<not> between b 0xC2 0xDF" "\<not> between b 0xE0 0xEF"
               "between b 0xF0 0xF4"
      | (bad) "\<not> byte b < 0x80" "\<not> between b 0xC2 0xDF" "\<not> between b 0xE0 0xEF"
              "\<not> between b 0xF0 0xF4"
      by blast
    then show ?thesis
    proof cases
      case one
      with "1.prems" bs have "wellformed t" by simp
      with IH[of t] bs one show ?thesis by (simp add: first_byte_def)
    next
      case two
      with "1.prems" bs obtain c r where t: "t = c # r" and c: "between c 0x80 0xBF"
        and r: "wellformed r"
        by (cases t) auto
      from IH[of r] r bs t have "decode Idle r = r" by simp
      with decode_two[OF two c, of r] bs t show ?thesis by simp
    next
      case three
      with "1.prems" bs obtain c d r where t: "t = c # d # r"
        and c: "between c (second_lo b) (second_hi b)" and d: "between d 0x80 0xBF"
        and r: "wellformed r"
        by (cases t; cases "tl t") auto
      from IH[of r] r bs t have "decode Idle r = r" by simp
      with decode_three[OF three c d, of r] bs t show ?thesis by simp
    next
      case four
      with "1.prems" bs obtain c d f r where t: "t = c # d # f # r"
        and c: "between c (second_lo b) (second_hi b)" and d: "between d 0x80 0xBF"
        and f: "between f 0x80 0xBF" and r: "wellformed r"
        by (cases t; cases "tl t"; cases "tl (tl t)") auto
      from IH[of r] r bs t have "decode Idle r = r" by simp
      with decode_four[OF four c d f, of r] bs t show ?thesis by simp
    next
      case bad
      with "1.prems" bs show ?thesis by simp
    qed
  qed
qed

lemma Buffer_toString_wellformed: "wellformed bs \<Longrightarrow> Buffer_toString bs = bs"
  by (simp add: Buffer_toString_def decode_wellformed)

lemma first_byte_newline:
  "c \<noteq> CHR 0x0A \<Longrightarrow> CHR 0x0A \<notin> set (fst (first_byte c)) \<and>
     CHR 0x0A \<notin> set (held (snd (first_byte c)))"
  by (simp add: first_byte_def replacement_def)

lemma step_newline_free:
  "c \<noteq> CHR 0x0A \<Longrightarrow> CHR 0x0A \<notin> set (held st) \<Longrightarrow>
   CHR 0x0A \<notin> set (fst (step st c)) \<and> CHR 0x0A \<notin> set (held (snd (step st c)))"
  using first_byte_newline[of c]
  by (cases st) (auto simp: replacement_def)

lemma decode_newline_free:
  "CHR 0x0A \<notin> set l \<Longrightarrow> CHR 0x0A \<notin> set (held st) \<Longrightarrow> CHR 0x0A \<notin> set (decode st l)"
proof (induction l arbitrary: st)
  case Nil
  then show ?case by (cases st) (simp_all add: replacement_def)
next
  case (Cons c l)
  then show ?case using step_newline_free[of c st] by auto
qed

lemma Buffer_toString_newline_free:
  "CHR 0x0A \<notin> set l \<Longrightarrow> CHR 0x0A \<notin> set (Buffer_toString l)"
  by (simp add: Buffer_toString_def decode_newline_free)

lemma wellformed_ascii: "\<forall>c\<in>set s. byte c < 0x80 \<Longrightarrow> wellformed s"
  by (induction s) simp_all

lemma Buffer_toString_unlines:
  "Buffer_toString (unlines ls) = unlines (map Buffer_toString ls)"
proof (induction ls)
  case Nil
  then show ?case by (simp add: unlines_def Buffer_toString_def)
next
  case (Cons l ls)
  then show ?case
    using Buffer_toString_line[of l "unlines ls"] by (simp add: unlines_def)
qed

lemma streamChat_yields_wellformed:
  assumes valid: "validateDocumentAccess d u (req_document_id q) = Inr doc"
      and wf: "\<forall>c\<in>set (body_chunks (post_chat e (the (doc_logos_id doc)) (req_message q)
                           (contextFor e d u q))). wellformed c"
  shows "yielded (effects (streamChat e d u q)) =
           body_chunks (post_chat e (the (doc_logos_id doc)) (req_message q)
                           (contextFor e d u q))"
  using wf by (simp add: streamChat_yields[OF valid] Buffer_toString_wellformed map_idI)

subsection \<open>The example run\<close>

lemma req1_fields: "req_document_id req1 = ''D1''" "req_message req1 = ''hi''"
  by (simp_all add: req1_def)

lemma doc1_logos: "the (doc_logos_id doc1) = ''L1''"
  by (simp add: doc1_def)

lemma doc1_reference: "\<not> falsy (doc_logos_id doc1)"
  by (simp add: doc1_def)

lemma db1_no_session: "chatSessions db1 i = None"
  by (simp add: db1_def)

lemma example_valid: "validateDocumentAccess db1 ''alice'' (req_document_id req1) = Inr doc1"
  by (simp add: validateDocumentAccess_def db1_def doc1_def req1_def)

lemma example_ascii: "\<forall>s\<in>set (map unlines lines1). \<forall>c\<in>set s. byte c < 0x80"
  by (simp add: lines1_def unlines_def byte_def)

lemma example_texts: "map Buffer_toString (map unlines lines1) = map unlines lines1"
proof (rule map_idI)
  fix s assume "s \<in> set (map unlines lines1)"
  with example_ascii have "\<forall>c\<in>set s. byte c < 0x80" by blast
  then show "Buffer_toString s = s" by (rule Buffer_toString_ascii)
qed

lemma example_line_texts: "map Buffer_toString (concat lines1) = concat lines1"
proof (rule map_idI)
  fix s assume "s \<in> set (concat lines1)"
  then have "\<forall>c\<in>set s. byte c < 0x80"
    by (auto simp: lines1_def byte_def)
  then show "Buffer_toString s = s" by (rule Buffer_toString_ascii)
qed

lemma example_response:
  "post_chat env1 (the (doc_logos_id doc1)) (req_message req1)
     (contextFor env1 db1 ''alice'' req1) =
   \<lparr>body_chunks = map unlines lines1, body_error = None\<rparr>"
  by (simp add: env1_def)

lemma example_stream: "remoteStream env1 db1 ''alice'' req1 doc1 = (map unlines lines1, None)"
  unfolding remoteStream_def chatStream_def example_response Let_def
  by (simp only: chat_response.simps example_texts)

lemma example_lines: "\<forall>g\<in>set lines1. \<forall>l\<in>set g. CHR 0x0A \<notin> set l"
  by (simp add: lines1_def)

lemma example_context: "contextFor e db1 ''alice'' req1 = []"
  by (simp add: contextFor_def saveMessage_def getOrCreateSession_def getChatHistory_def
        validateDocumentAccess_def session_messages_def db1_def doc1_def req1_def Let_def)

lemma example_accumulate:
  "accumulate (JSON_parse env1) (map unlines lines1) = (''Hello'', [''a'', ''b''])"
  unfolding accumulate_whole_lines[OF example_lines]
  by (simp add: env1_def lines1_def parse1_def content_of_def ids_of_def last_ids_def
        startsWith_def slice_def)

section \<open>Claims\<close>

text \<open>
  C1. When the chunks of the remote stream are whole lines and the stream ends normally,
  the generator completes, and the assistant message it persists has as content the
  concatenation, in arrival order, of the content fragments of the lines that begin with
  \<open>data: \<close>, and as chunk ids the last set of chunk ids seen (none accumulated). A line
  whose payload does not parse contributes nothing. (The lines are read as text, and no
  assistant message is written when the concatenation is empty.)
\<close>

theorem streamChat_accumulates:
  assumes valid: "validateDocumentAccess d userId (req_document_id q) = Inr doc"
      and whole: "post_chat e (the (doc_logos_id doc)) (req_message q) (contextFor e d userId q) =
                    \<lparr>body_chunks = map unlines groups, body_error = None\<rparr>"
      and lines: "\<forall>g\<in>set groups. \<forall>l\<in>set g. CHR 0x0A \<notin> set l"
  shows "result (streamChat e d userId q) = Inr () \<and>
         added d (store (streamChat e d userId q)) =
           (user, req_message q, []) #
           (if concat (map (content_of (JSON_parse e))
                         (map Buffer_toString (concat groups))) = [] then []
            else [(assistant,
                   concat (map (content_of (JSON_parse e))
                             (map Buffer_toString (concat groups))),
                   last_ids [] (map (ids_of (JSON_parse e))
                                  (map Buffer_toString (concat groups))))])"
proof -
  let ?texts = "map (map Buffer_toString) groups"
  have "map Buffer_toString (map unlines groups) = map unlines ?texts"
    by (simp add: Buffer_toString_unlines)
  then have stream: "remoteStream e d userId q doc = (map unlines ?texts, None)"
    by (simp add: remoteStream_def chatStream_def whole)
  have lines': "\<forall>g\<in>set ?texts. \<forall>l\<in>set g. CHR 0x0A \<notin> set l"
    using lines by (auto simp: Buffer_toString_newline_free)
  have texts: "concat ?texts = map Buffer_toString (concat groups)"
    by (simp add: map_concat)
  show ?thesis
    using streamChat_whole_lines[OF valid stream lines'] by (simp only: texts)
qed

theorem streamChat_accumulates_witness:
  "result (streamChat env1 db1 ''alice'' req1) = Inr () \<and>
   added db1 (store (streamChat env1 db1 ''alice'' req1)) =
     [(user, ''hi'', []), (assistant, ''Hello'', [''a'', ''b''])]"
  using streamChat_accumulates[OF example_valid example_response example_lines]
  unfolding example_line_texts
  by (simp add: env1_def lines1_def parse1_def content_of_def ids_of_def last_ids_def
        startsWith_def slice_def req1_def)

text \<open>
  C2. The chunks \<open>streamChat\<close> yields are those of the remote stream, one for one and in
  order, each turned into text by \<open>chatStream\<close> on its own (\<open>streamChat_yields\<close>); a chunk
  that is well-formed UTF-8 by itself comes out unchanged (\<open>streamChat_yields_wellformed\<close>).
  A character whose bytes are cut by a chunk boundary does not: it reaches the caller as
  two replacement characters. Here the remote sends \<open>caf\<close> and the first byte of an
  accented \<open>e\<close> in one chunk and the second byte in the next, and the caller gets other
  bytes than the remote sent.
\<close>

theorem split_character_garbled:
  \<open>body_chunks (post_chat env2 ''L1'' ''hi'' []) =
     [''data: {"content":"caf'' @ [CHR 0xC3], CHR 0xA9 # ''"}'' @ [CHR 0x0A, CHR 0x0A]] \<and>
   yielded (effects (streamChat env2 db1 ''alice'' req1)) =
     [''data: {"content":"caf'' @ [CHR 0xEF, CHR 0xBF, CHR 0xBD],
      [CHR 0xEF, CHR 0xBF, CHR 0xBD] @ ''"}'' @ [CHR 0x0A, CHR 0x0A]] \<and>
   yielded (effects (streamChat env2 db1 ''alice'' req1)) \<noteq>
     body_chunks (post_chat env2 ''L1'' ''hi'' [])\<close>
proof -
  have "yielded (effects (streamChat env2 db1 ''alice'' req1)) =
        map Buffer_toString (body_chunks (post_chat env2 ''L1'' ''hi'' []))"
    using streamChat_yields[OF example_valid, of env2]
    by (simp add: example_context req1_fields doc1_logos)
  then show ?thesis
    by (simp add: env2_def env1_def Buffer_toString_def first_byte_def expected_def second_lo_def
          second_hi_def byte_def between_def replacement_def)
qed

text \<open>
  C3. A run of \<open>streamChat\<close> that passes validation has exactly these effects, in this
  order: the user message is saved (after the session is created, if there was none),
  then the remote stream is opened, then every chunk is yielded, and last the assistant
  message is saved, if and only if the stream ended normally and the accumulated response
  is not empty. So the store gains the user message, and the assistant message under
  that same condition and no other.
\<close>

theorem streamChat_order:
  assumes valid: "validateDocumentAccess d userId (req_document_id q) = Inr doc"
      and stream: "remoteStream e d userId q doc = (chunks, failure)"
      and acc: "accumulate (JSON_parse e) chunks = (fullResponse, chunkIds)"
  shows "effects (streamChat e d userId q) =
           (if chatSessions d (req_document_id q) = None
            then [SessionCreated (req_document_id q)] else []) @
           [MessageSaved (req_document_id q) user (req_message q) [],
            ChatStreamOpened (the (doc_logos_id doc)) (req_message q)
              (contextFor e d userId q)] @
           map Yielded chunks @
           (if failure = None \<and> fullResponse \<noteq> []
            then [MessageSaved (req_document_id q) assistant fullResponse chunkIds] else []) \<and>
         added d (store (streamChat e d userId q)) =
           (user, req_message q, []) #
           (if failure = None \<and> fullResponse \<noteq> [] then [(assistant, fullResponse, chunkIds)]
            else [])"
  using streamChat_effects[OF valid stream acc] streamChat_added[OF valid stream acc]
  by simp

theorem streamChat_order_witness:
  "effects (streamChat env1 db1 ''alice'' req1) =
     [SessionCreated ''D1'', MessageSaved ''D1'' user ''hi'' [],
      ChatStreamOpened ''L1'' ''hi'' []] @ map Yielded (map unlines lines1) @
     [MessageSaved ''D1'' assistant ''Hello'' [''a'', ''b'']] \<and>
   added db1 (store (streamChat env1 db1 ''alice'' req1)) =
     [(user, ''hi'', []), (assistant, ''Hello'', [''a'', ''b''])]"
  using streamChat_order[OF example_valid example_stream example_accumulate]
  by (simp add: example_context req1_fields doc1_logos db1_no_session)

text \<open>
  C4. \<open>streamChat\<close> fails with \<open>NotFoundException\<close> when the document is absent, with
  \<open>ForbiddenException\<close> when its owner is not the caller, and with \<open>BadRequestException\<close>
  (the invalid state) when the caller's document is not \<open>COMPLETED\<close> or has no Logos
  reference; in each case nothing has happened before: no request to the remote, no
  message saved, the store as it was.
\<close>

theorem streamChat_rejects:
  "(documents d (req_document_id q) = None \<longrightarrow>
      streamChat e d userId q =
        \<lparr>store = d, effects = [], result = Inl (NotFoundException ''Document not found'')\<rparr>) \<and>
   (\<forall>doc. documents d (req_document_id q) = Some doc \<and> doc_user_id doc \<noteq> userId \<longrightarrow>
      streamChat e d userId q =
        \<lparr>store = d, effects = [], result = Inl (ForbiddenException ''Access denied'')\<rparr>) \<and>
   (\<forall>doc. documents d (req_document_id q) = Some doc \<and> doc_user_id doc = userId \<and>
          doc_status doc \<noteq> COMPLETED \<longrightarrow>
      streamChat e d userId q =
        \<lparr>store = d, effects = [],
         result = Inl (BadRequestException
                        (''Document is not ready. Current status: '' @
                         status_name (doc_status doc)))\<rparr>) \<and>
   (\<forall>doc. documents d (req_document_id q) = Some doc \<and> doc_user_id doc = userId \<and>
          doc_status doc = COMPLETED \<and> falsy (doc_logos_id doc) \<longrightarrow>
      streamChat e d userId q =
        \<lparr>store = d, effects = [],
         result = Inl (BadRequestException ''Document has no Logos reference'')\<rparr>)"
  by (simp add: streamChat_def validateDocumentAccess_def)

theorem streamChat_rejects_witness:
  "streamChat env1 db1 ''alice'' req9 =
     \<lparr>store = db1, effects = [], result = Inl (NotFoundException ''Document not found'')\<rparr> \<and>
   streamChat env1 db1 ''bob'' req1 =
     \<lparr>store = db1, effects = [], result = Inl (ForbiddenException ''Access denied'')\<rparr> \<and>
   streamChat env1 db1 ''alice'' req2 =
     \<lparr>store = db1, effects = [],
      result = Inl (BadRequestException ''Document is not ready. Current status: PENDING'')\<rparr> \<and>
   streamChat env1 db1 ''alice'' req3 =
     \<lparr>store = db1, effects = [],
      result = Inl (BadRequestException ''Document has no Logos reference'')\<rparr>"
  using streamChat_rejects[of db1 req9 env1 "''alice''"]
        streamChat_rejects[of db1 req1 env1 "''bob''"]
        streamChat_rejects[of db1 req2 env1 "''alice''"]
        streamChat_rejects[of db1 req3 env1 "''alice''"]
  by (simp add: db1_def doc1_def doc2_def doc3_def req1_def req2_def req3_def req9_def)

text \<open>
  C5 (as the code has it). \<open>getChatHistory\<close> validates access with the chat service's own
  \<open>validateDocumentAccess\<close>, not with the access rule of the document directory
  (\<open>findOne\<close>): it fails with \<open>NotFoundException\<close> when the document is absent, with
  \<open>ForbiddenException\<close> when the caller is not the owner, and with \<open>BadRequestException\<close>
  when the caller's document is not \<open>COMPLETED\<close> or has no Logos reference. For every
  document that passes, it returns all messages of the document's session, ordered by
  creation time ascending, or the empty history (empty session id, no messages, no error)
  when there is no session yet.
\<close>

theorem getChatHistory_rule:
  "(documents d documentId = None \<longrightarrow>
      getChatHistory d userId documentId = Inl (NotFoundException ''Document not found'')) \<and>
   (\<forall>doc. documents d documentId = Some doc \<and> doc_user_id doc \<noteq> userId \<longrightarrow>
      getChatHistory d userId documentId = Inl (ForbiddenException ''Access denied'')) \<and>
   (\<forall>doc. documents d documentId = Some doc \<and> doc_user_id doc = userId \<and>
          doc_status doc \<noteq> COMPLETED \<longrightarrow>
      getChatHistory d userId documentId =
        Inl (BadRequestException
              (''Document is not ready. Current status: '' @ status_name (doc_status doc)))) \<and>
   (\<forall>doc. documents d documentId = Some doc \<and> doc_user_id doc = userId \<and>
          doc_status doc = COMPLETED \<and> falsy (doc_logos_id doc) \<longrightarrow>
      getChatHistory d userId documentId =
        Inl (BadRequestException ''Document has no Logos reference'')) \<and>
   (\<forall>doc. documents d documentId = Some doc \<and> doc_user_id doc = userId \<and>
          doc_status doc = COMPLETED \<and> \<not> falsy (doc_logos_id doc) \<longrightarrow>
      (case chatSessions d documentId of
         None \<Rightarrow>
           getChatHistory d userId documentId =
             Inr \<lparr>hist_session_id = [], hist_document_id = documentId, hist_messages = []\<rparr>
       | Some s \<Rightarrow>
           (\<exists>ms. getChatHistory d userId documentId =
                   Inr \<lparr>hist_session_id = ses_id s, hist_document_id = documentId,
                        hist_messages = map message_dto ms\<rparr> \<and>
                 sorted (map msg_created_at ms) \<and>
                 mset ms = mset (filter (\<lambda>m. msg_session_id m = ses_id s)
                                   (chatMessages d)))))"
  by (auto simp add: getChatHistory_def validateDocumentAccess_def session_messages_sorted
        session_messages_mset split: option.splits)

theorem getChatHistory_rule_witness:
  "getChatHistory db5 ''alice'' ''D9'' = Inl (NotFoundException ''Document not found'') \<and>
   getChatHistory db5 ''bob'' ''D1'' = Inl (ForbiddenException ''Access denied'') \<and>
   getChatHistory db5 ''alice'' ''D2'' =
     Inl (BadRequestException ''Document is not ready. Current status: PENDING'') \<and>
   getChatHistory db5 ''alice'' ''D3'' =
     Inl (BadRequestException ''Document has no Logos reference'') \<and>
   getChatHistory db1 ''alice'' ''D1'' =
     Inr \<lparr>hist_session_id = [], hist_document_id = ''D1'', hist_messages = []\<rparr> \<and>
   getChatHistory db5 ''alice'' ''D1'' =
     Inr \<lparr>hist_session_id = ''S1'', hist_document_id = ''D1'',
          hist_messages = map message_dto [msg_b, msg_a]\<rparr>"
  using getChatHistory_rule[of db5 "''D9''" "''alice''"]
        getChatHistory_rule[of db5 "''D1''" "''bob''"]
        getChatHistory_rule[of db5 "''D2''" "''alice''"]
        getChatHistory_rule[of db5 "''D3''" "''alice''"]
        getChatHistory_rule[of db1 "''D1''" "''alice''"]
        getChatHistory_rule[of db5 "''D1''" "''alice''"]
  by (simp add: db5_def db1_def doc1_def doc2_def doc3_def session5_def getChatHistory_def
        validateDocumentAccess_def session_messages_def msg_a_def msg_b_def msg_c_def)

text \<open>
  The claim as it was stated fails: a pending document of the caller passes \<open>findOne\<close>,
  yet \<open>getChatHistory\<close> refuses it with an error that is neither \<open>NotFoundException\<close> nor
  \<open>ForbiddenException\<close>.
\<close>

theorem history_of_pending_document_refused:
  "findOne db1 ''alice'' ''D2'' = Inr doc2 \<and>
   getChatHistory db1 ''alice'' ''D2'' =
     Inl (BadRequestException ''Document is not ready. Current status: PENDING'')"
  by (simp add: findOne_def getChatHistory_def validateDocumentAccess_def db1_def doc2_def)

text \<open>
  C6. For a document of the caller with a Logos reference whose remote status differs
  from the stored one, \<open>getStatus\<close> writes the remote status, summary, classification and
  error message to the row and returns the fresh values; a second call against the same
  remote returns the same values and leaves the store as the first call left it. When
  the remote status equals the stored one, nothing is written.
\<close>

theorem getStatus_refresh:
  assumes found: "findOne d userId documentId = Inr doc"
      and ref: "\<not> falsy (doc_logos_id doc)"
      and remote: "getDocumentStatus e (the (doc_logos_id doc)) = Inr r"
  shows "(ls_status r \<noteq> doc_status doc \<longrightarrow>
            getStatus e d userId documentId =
              \<lparr>store = d\<lparr>documents := (documents d)(documentId \<mapsto>
                             doc\<lparr>doc_status := ls_status r, doc_summary := ls_summary r,
                                 doc_classification := ls_classification r,
                                 doc_error_message := ls_error_message r,
                                 doc_updated_at := now e (generated d)\<rparr>),
                           generated := Suc (generated d)\<rparr>,
               effects = [StatusRequested (the (doc_logos_id doc)), DocumentUpdated documentId],
               result = Inr (fresh_view doc r)\<rparr> \<and>
            getStatus e (store (getStatus e d userId documentId)) userId documentId =
              \<lparr>store = store (getStatus e d userId documentId),
               effects = [StatusRequested (the (doc_logos_id doc))],
               result = Inr (fresh_view doc r)\<rparr>) \<and>
         (ls_status r = doc_status doc \<longrightarrow>
            getStatus e d userId documentId =
              \<lparr>store = d, effects = [StatusRequested (the (doc_logos_id doc))],
               result = Inr (fresh_view doc r)\<rparr>)"
proof -
  let ?doc' = "doc\<lparr>doc_status := ls_status r, doc_summary := ls_summary r,
                   doc_classification := ls_classification r,
                   doc_error_message := ls_error_message r,
                   doc_updated_at := now e (generated d)\<rparr>"
  let ?d' = "d\<lparr>documents := (documents d)(documentId \<mapsto> ?doc'),
               generated := Suc (generated d)\<rparr>"
  have owner: "doc_user_id doc = userId"
    using found by (auto simp: findOne_def split: option.splits if_splits)
  have first: "getStatus e d userId documentId =
                 \<lparr>store = ?d',
                  effects = [StatusRequested (the (doc_logos_id doc)), DocumentUpdated documentId],
                  result = Inr (fresh_view doc r)\<rparr>"
    if "ls_status r \<noteq> doc_status doc"
    using ref remote that
    by (simp add: getStatus_def found update_document_def fresh_view_def)
  have same: "getStatus e d userId documentId =
                \<lparr>store = d, effects = [StatusRequested (the (doc_logos_id doc))],
                 result = Inr (fresh_view doc r)\<rparr>"
    if "ls_status r = doc_status doc"
    using ref remote that
    by (simp add: getStatus_def found fresh_view_def)
  have found': "findOne ?d' userId documentId = Inr ?doc'"
    by (simp add: findOne_def owner)
  have second: "getStatus e ?d' userId documentId =
                  \<lparr>store = ?d', effects = [StatusRequested (the (doc_logos_id doc))],
                   result = Inr (fresh_view doc r)\<rparr>"
    using ref remote
    by (simp add: getStatus_def found' fresh_view_def)
  show ?thesis
    using first same second by simp
qed

lemma findOne_doc2: "findOne db1 ''alice'' ''D2'' = Inr doc2"
  by (simp add: findOne_def db1_def doc2_def)

lemma doc2_reference: "\<not> falsy (doc_logos_id doc2)" "the (doc_logos_id doc2) = ''L2''"
  by (simp_all add: doc2_def)

lemma status2_remote: "getDocumentStatus env1 ''L2'' = Inr status2"
  by (simp add: getDocumentStatus_def env1_def)

lemma findOne_doc2': "findOne db2 ''alice'' ''D2'' = Inr doc2'"
  by (simp add: findOne_def db2_def doc2'_def doc2_def)

lemma doc2'_reference: "\<not> falsy (doc_logos_id doc2')" "the (doc_logos_id doc2') = ''L2''"
  by (simp_all add: doc2'_def doc2_def)

theorem getStatus_refresh_witness:
  "getStatus env1 db1 ''alice'' ''D2'' =
     \<lparr>store = db2, effects = [StatusRequested ''L2'', DocumentUpdated ''D2''],
      result = Inr \<lparr>sv_id = ''D2'', sv_status = PROCESSING, sv_summary = Some ''draft'',
                    sv_classification = Some ''memo'', sv_error_message = None\<rparr>\<rparr> \<and>
   getStatus env1 db2 ''alice'' ''D2'' =
     \<lparr>store = db2, effects = [StatusRequested ''L2''],
      result = Inr \<lparr>sv_id = ''D2'', sv_status = PROCESSING, sv_summary = Some ''draft'',
                    sv_classification = Some ''memo'', sv_error_message = None\<rparr>\<rparr>"
  using getStatus_refresh[OF findOne_doc2 doc2_reference(1), of env1 status2]
        getStatus_refresh[OF findOne_doc2' doc2'_reference(1), of env1 status2]
  by (simp add: doc2_reference doc2'_reference status2_remote fresh_view_def)
     (simp add: status2_def db2_def doc2'_def doc2_def db1_def env1_def)

text \<open>
  C7. For a document of the caller without a Logos reference, \<open>getStatus\<close> returns the
  stored id, status, summary, classification and error message, sends nothing to the
  remote and leaves the store unchanged.
\<close>

theorem getStatus_local:
  assumes "findOne d userId documentId = Inr doc" and "falsy (doc_logos_id doc)"
  shows "getStatus e d userId documentId =
           \<lparr>store = d, effects = [],
            result = Inr \<lparr>sv_id = doc_id doc, sv_status = doc_status doc,
                          sv_summary = doc_summary doc,
                          sv_classification = doc_classification doc,
                          sv_error_message = doc_error_message doc\<rparr>\<rparr>"
  using assms by (simp add: getStatus_def)

lemma findOne_doc3: "findOne db1 ''alice'' ''D3'' = Inr doc3"
  by (simp add: findOne_def db1_def doc3_def)

lemma doc3_no_reference: "falsy (doc_logos_id doc3)"
  by (simp add: doc3_def)

theorem getStatus_local_witness:
  "getStatus env1 db1 ''alice'' ''D3'' =
     \<lparr>store = db1, effects = [],
      result = Inr \<lparr>sv_id = ''D3'', sv_status = COMPLETED, sv_summary = Some ''old'',
                    sv_classification = None, sv_error_message = None\<rparr>\<rparr>"
  using getStatus_local[OF findOne_doc3 doc3_no_reference, of env1]
  by (simp add: doc3_def)

text \<open>
  C8. For every document of the caller, \<open>delete\<close> succeeds and removes the row, whatever
  the remote delete does: a failure of the remote call is logged as a warning and the
  local delete follows it all the same.
\<close>

theorem delete_local_always:
  assumes "findOne d userId documentId = Inr doc"
  shows "result (delete e d userId documentId) =
           Inr \<lparr>ack_message = ''Document deleted successfully''\<rparr> \<and>
         store (delete e d userId documentId) = delete_document d documentId \<and>
         documents (store (delete e d userId documentId)) documentId = None \<and>
         effects (delete e d userId documentId) =
           (if falsy (doc_logos_id doc) then []
            else DeleteRequested (the (doc_logos_id doc)) #
                 (case deleteDocument e (the (doc_logos_id doc)) of
                    None \<Rightarrow> []
                  | Some err \<Rightarrow>
                      [Warned (''Failed to delete document from Logos: '' @ message_of err)])) @
           [DocumentDeleted documentId]"
  using assms by (simp add: delete_def delete_document_def Let_def split: option.splits)

lemma findOne_doc1: "findOne db1 ''alice'' ''D1'' = Inr doc1"
  by (simp add: findOne_def db1_def doc1_def)

lemma delete_fails: "deleteDocument env1 ''L1'' = Some (HttpException ''down'' 503)"
  by (simp add: deleteDocument_def env1_def)

theorem delete_local_always_witness:
  "result (delete env1 db1 ''alice'' ''D1'') =
     Inr \<lparr>ack_message = ''Document deleted successfully''\<rparr> \<and>
   documents (store (delete env1 db1 ''alice'' ''D1'')) ''D1'' = None \<and>
   effects (delete env1 db1 ''alice'' ''D1'') =
     [DeleteRequested ''L1'', Warned ''Failed to delete document from Logos: down'',
      DocumentDeleted ''D1'']"
  using delete_local_always[OF findOne_doc1, of env1]
  by (simp add: doc1_logos doc1_reference delete_fails delete_document_def)









text \<open>
  C10 (as the code has it). The parser splits every chunk into lines on its own and never
  joins a line across a chunk boundary: when a boundary cuts a line into \<open>a\<close> (the end of
  one chunk) and \<open>b\<close> (the start of the next), \<open>a\<close> and \<open>b\<close> are parsed as two lines, and all
  chunks are yielded unchanged. Nothing of the cut line is accumulated when neither piece
  is by itself a \<open>data: \<close> line with a payload that parses.
\<close>

theorem split_line_is_two_lines:
  assumes c1: "split (CHR 0x0A) c1 = ls1 @ [a]" and c2: "split (CHR 0x0A) c2 = b # ls2"
  shows "forAwait parse (pre @ [c1, c2] @ post) acc out =
           (foldl (parseLine parse) acc (lines_of pre @ ls1 @ [a, b] @ ls2 @ lines_of post),
            out @ map Yielded (pre @ [c1, c2] @ post)) \<and>
         ((startsWith a ''data: '' \<longrightarrow> parse (slice a 6) = None) \<and>
          (startsWith b ''data: '' \<longrightarrow> parse (slice b 6) = None) \<longrightarrow>
          fst (forAwait parse (pre @ [c1, c2] @ post) acc out) =
            foldl (parseLine parse) acc (lines_of pre @ ls1 @ ls2 @ lines_of post))"
proof -
  have l: "lines_of (pre @ [c1, c2] @ post) = lines_of pre @ ls1 @ [a, b] @ ls2 @ lines_of post"
    by (simp add: lines_of_def c1 c2)
  show ?thesis
    unfolding forAwait_eq l by (simp add: parseLine_skip)
qed

lemma cut1_lines:
  \<open>split (CHR 0x0A) cut1 = [''data: {"content":"Hel"}'', []] @ [''data: {"con'']\<close>
  by (simp add: cut1_def)

lemma cut2_lines: \<open>split (CHR 0x0A) cut2 = ''tent":"lo"}'' # [[], []]\<close>
  by (simp add: cut2_def)

theorem split_line_is_two_lines_witness:
  "forAwait parse1 [cut1, cut2] ([], []) [] = ((''Hel'', []), [Yielded cut1, Yielded cut2])"
  using split_line_is_two_lines[OF cut1_lines cut2_lines, of parse1 "[]" "[]" "([], [])" "[]"]
  by (simp add: lines_of_def parseLine_def parse1_def startsWith_def slice_def)

lemma env3_stream:
  \<open>remoteStream env3 db1 ''alice'' req1 doc1 =
     ([''data: {"content":"x"}'', [CHR 0x0D, CHR 0x0A, CHR 0x0D, CHR 0x0A]], None)\<close>
  by (simp add: remoteStream_def chatStream_def env3_def env1_def Buffer_toString_def
        first_byte_def byte_def)

lemma env3_accumulate:
  \<open>accumulate (JSON_parse env3)
     [''data: {"content":"x"}'', [CHR 0x0D, CHR 0x0A, CHR 0x0D, CHR 0x0A]] = (''x'', [])\<close>
  by (simp add: accumulate_lines lines_of_def env3_def env1_def parse3_def content_of_def
        ids_of_def last_ids_def startsWith_def slice_def)

text \<open>
  The claim as it was stated fails, because the first piece of a cut line can be a complete
  \<open>data: \<close> line by itself. The line \<open>data: {"content":"x"}\<close> followed by CR is cut just
  before the CR; its content is appended all the same, and persisted.
\<close>

theorem split_line_still_appended:
  \<open>lines_of [''data: {"content":"x"}'' @ [CHR 0x0D, CHR 0x0A, CHR 0x0D, CHR 0x0A]] =
     [''data: {"content":"x"}'' @ [CHR 0x0D], [CHR 0x0D], []] \<and>
   content_of (JSON_parse env3) (''data: {"content":"x"}'' @ [CHR 0x0D]) = ''x'' \<and>
   body_chunks (post_chat env3 ''L1'' ''hi'' []) =
     [''data: {"content":"x"}'', [CHR 0x0D, CHR 0x0A, CHR 0x0D, CHR 0x0A]] \<and>
   added db1 (store (streamChat env3 db1 ''alice'' req1)) =
     [(user, ''hi'', []), (assistant, ''x'', [])]\<close>
  using streamChat_added[OF example_valid env3_stream env3_accumulate]
  by (simp add: req1_fields)
     (simp add: lines_of_def env3_def env1_def parse3_def content_of_def startsWith_def slice_def)

end
